theory Spec2Isabelle
  imports Main
begin

section \<open>JavaScript values and JSON text\<close>

text \<open>
  The values that travel through the session code: what a response body can carry in
  its \<open>userId\<close> field and what \<open>useState\<close> holds. Numbers are the integers
  (identifiers and status codes); fractional numbers are outside this development.
\<close>

datatype jsval =
    JUndefined
  | JNull
  | JBool bool
  | JNum int
  | JStr string
  | JArr "jsval list"
  | JObj "(string \<times> jsval) list"

text \<open>The test of \<open>if (v)\<close>, \<open>!v\<close> and \<open>a && b\<close>.\<close>

fun truthy :: "jsval \<Rightarrow> bool" where
  "truthy JUndefined = False"
| "truthy JNull = False"
| "truthy (JBool b) = b"
| "truthy (JNum n) = (n \<noteq> 0)"
| "truthy (JStr s) = (s \<noteq> [])"
| "truthy (JArr xs) = True"
| "truthy (JObj kvs) = True"

text \<open>\<open>a || b\<close> on a string that may be undefined: the fallback replaces undefined and the empty string.\<close>

definition or_else :: "string option \<Rightarrow> string \<Rightarrow> string" where
  "or_else v fallback = (case v of None \<Rightarrow> fallback | Some s \<Rightarrow> if s = [] then fallback else s)"

definition digit :: "nat \<Rightarrow> char" where
  "digit k = ''0123456789'' ! k"

fun decimal :: "nat \<Rightarrow> string" where
  "decimal n = (if 10 \<le> n then decimal (n div 10) @ [digit (n mod 10)] else [digit n])"

declare decimal.simps [simp del]

text \<open>The text of an integer number, as \<open>JSON.stringify\<close> and string conversion write it.\<close>

definition number_text :: "int \<Rightarrow> string" where
  "number_text i = (if 0 \<le> i then decimal (nat i) else CHR ''-'' # decimal (nat (- i)))"

definition hex_digit :: "nat \<Rightarrow> char" where
  "hex_digit k = ''0123456789abcdef'' ! k"

text \<open>
  The escapes of \<open>JSON.stringify\<close> inside a string literal: the double quote (0x22), the
  backslash (0x5C), the five short control escapes, and \<open>\u00XX\<close> for every other
  character below 0x20.
\<close>

definition escape_char :: "char \<Rightarrow> string" where
  "escape_char c =
     (if c = CHR 0x22 then [CHR 0x5C, CHR 0x22]
      else if c = CHR 0x5C then [CHR 0x5C, CHR 0x5C]
      else if c = CHR 0x08 then [CHR 0x5C, CHR ''b'']
      else if c = CHR 0x0C then [CHR 0x5C, CHR ''f'']
      else if c = CHR 0x0A then [CHR 0x5C, CHR ''n'']
      else if c = CHR 0x0D then [CHR 0x5C, CHR ''r'']
      else if c = CHR 0x09 then [CHR 0x5C, CHR ''t'']
      else if (of_char c :: nat) < 32
        then [CHR 0x5C, CHR ''u'', CHR ''0'', CHR ''0'',
              hex_digit ((of_char c :: nat) div 16), hex_digit ((of_char c :: nat) mod 16)]
      else [c])"

definition quote :: "string \<Rightarrow> string" where
  "quote s = CHR 0x22 # concat (map escape_char s) @ [CHR 0x22]"

fun join :: "string \<Rightarrow> string list \<Rightarrow> string" where
  "join sep [] = []"
| "join sep [x] = x"
| "join sep (x # y # ys) = x @ sep @ join sep (y # ys)"

text \<open>
  \<open>JSON.stringify\<close>: undefined has no JSON text (the call returns undefined, here
  \<open>None\<close>); inside an array it is written \<open>null\<close>, inside an object the property is left out.
\<close>

fun JSON_stringify :: "jsval \<Rightarrow> string option" where
  "JSON_stringify JUndefined = None"
| "JSON_stringify JNull = Some ''null''"
| "JSON_stringify (JBool b) = Some (if b then ''true'' else ''false'')"
| "JSON_stringify (JNum n) = Some (number_text n)"
| "JSON_stringify (JStr s) = Some (quote s)"
| "JSON_stringify (JArr xs) =
     Some (''['' @ join '',''
        (map (\<lambda>x. case JSON_stringify x of None \<Rightarrow> ''null'' | Some s \<Rightarrow> s) xs) @ '']'')"
| "JSON_stringify (JObj kvs) =
     Some (''{'' @ join '',''
        (concat (map (\<lambda>kv. case JSON_stringify (snd kv) of
                               None \<Rightarrow> []
                             | Some s \<Rightarrow> [quote (fst kv) @ '':'' @ s]) kvs))
        @ ''}'')"

text \<open>A call's result as a value again: \<open>setUserId(JSON.stringify(x))\<close> stores a string or undefined.\<close>

definition js_of_text :: "string option \<Rightarrow> jsval" where
  "js_of_text r = (case r of None \<Rightarrow> JUndefined | Some s \<Rightarrow> JStr s)"

text \<open>\<open>localStorage.setItem\<close> stores the string conversion of its argument: undefined becomes the text "undefined".\<close>

definition storage_text :: "string option \<Rightarrow> string" where
  "storage_text r = (case r of None \<Rightarrow> ''undefined'' | Some s \<Rightarrow> s)"

section \<open>Remote calls\<close>

text \<open>
  A request is named by its endpoint and carries what the code sends. The remote side is
  not part of the repository: each awaited call either resolves with a response or throws,
  and that outcome is an input of the model. A thrown value is seen by the code only through
  \<open>err.response?.status\<close> and \<open>err.response?.data?.message\<close>.
\<close>

record login_form =
  username :: string
  password :: string

record sign_up_form =
  nd_username :: string
  nd_email :: string
  nd_firstName :: string
  nd_lastName :: string
  nd_password :: string
  nd_role :: string
  nd_phoneNumber :: string

record task_draft =
  title :: string
  description :: string
  dueDate :: string
  priority :: string

record task = task_draft +
  task_id :: int

datatype request =
    PostLogin login_form
  | PostSignUp sign_up_form
  | PostTask task_draft jsval
  | GetUserMe jsval

record 'b response =
  status :: int
  data :: 'b

record err_response =
  err_status :: int
  err_message :: "string option"

text \<open>
  What a \<open>catch\<close> receives: an error of the HTTP client, with its response when the server
  answered, or a \<open>TypeError\<close> raised by reading a property of undefined.
\<close>

datatype js_error = TypeError | RequestError "err_response option"

datatype 'b outcome = Resolved "'b response" | Rejected "err_response option"

fun error_response :: "js_error \<Rightarrow> err_response option" where
  "error_response TypeError = None"
| "error_response (RequestError r) = r"

text \<open>\<open>err.response?.status\<close> (0 stands for undefined: both are replaced by \<open>|| 500\<close>) and \<open>err.response?.data?.message\<close>.\<close>

definition error_status :: "js_error \<Rightarrow> int" where
  "error_status e = (case error_response e of None \<Rightarrow> 0 | Some r \<Rightarrow> err_status r)"

definition error_message :: "js_error \<Rightarrow> string option" where
  "error_message e = (case error_response e of None \<Rightarrow> None | Some r \<Rightarrow> err_message r)"

section \<open>Session Manager (AuthProvider)\<close>

record login_body =
  body_userId :: jsval
  body_token :: string
  body_message :: "string option"

record login_result =
  res_status :: int
  res_message :: "string option"

text \<open>
  The in-memory session (\<open>useState(null)\<close>, \<open>useState('')\<close>), the browser's
  \<open>localStorage\<close> and the requests issued so far. Writes to \<open>localStorage\<close> are taken
  to succeed here.
\<close>

record auth_world =
  userId :: jsval
  token :: string
  localStorage :: "string \<rightharpoonup> string"
  requests :: "request list"

definition initial_world :: "(string \<rightharpoonup> string) \<Rightarrow> auth_world" where
  "initial_world ls = \<lparr>userId = JNull, token = [], localStorage = ls, requests = []\<rparr>"

text \<open>The effect run once on mount (\<open>getData\<close>).\<close>

definition getData :: "auth_world \<Rightarrow> auth_world" where
  "getData w =
     (case localStorage w ''userId'' of
        None \<Rightarrow> w
      | Some u \<Rightarrow>
          (case localStorage w ''token'' of
             None \<Rightarrow> w
           | Some t \<Rightarrow>
               if u \<noteq> [] \<and> t \<noteq> []
               then w\<lparr>userId := js_of_text (JSON_stringify (JStr u)), token := t\<rparr>
               else w))"

definition login_catch :: "js_error \<Rightarrow> login_result" where
  "login_catch err =
     \<lparr>res_status = (if error_status err = 0 then 500 else error_status err),
      res_message = Some (or_else (error_message err) ''An error occurred during login'')\<rparr>"

text \<open>
  \<open>login\<close>. The body of a resolved response is \<open>None\<close> when \<open>response.data\<close> is
  undefined: destructuring it, or reading its \<open>message\<close>, throws inside the \<open>try\<close>.
\<close>

definition login ::
  "login_form option \<Rightarrow> login_body option outcome \<Rightarrow> auth_world \<Rightarrow> login_result \<times> auth_world" where
  "login postData remote w =
     (case postData of
        None \<Rightarrow>
          (\<lparr>res_status = 404, res_message = Some ''ValueError: Invalid PostData Values''\<rparr>, w)
      | Some pd \<Rightarrow>
          (let w1 = w\<lparr>requests := requests w @ [PostLogin pd]\<rparr> in
           case remote of
             Rejected err \<Rightarrow> (login_catch (RequestError err), w1)
           | Resolved response \<Rightarrow>
               if status response = 200 then
                 (case data response of
                    None \<Rightarrow> (login_catch TypeError, w1)
                  | Some d \<Rightarrow>
                      (\<lparr>res_status = status response, res_message = body_message d\<rparr>,
                       w1\<lparr>localStorage :=
                             (localStorage w1)
                               (''userId'' \<mapsto> storage_text (JSON_stringify (body_userId d)),
                                ''token'' \<mapsto> body_token d),
                           userId := body_userId d,
                           token := body_token d\<rparr>))
               else
                 (case data response of
                    None \<Rightarrow> (login_catch TypeError, w1)
                  | Some d \<Rightarrow>
                      (\<lparr>res_status = status response,
                        res_message = Some (or_else (body_message d) ''Unknown response'')\<rparr>,
                       w1))))"

definition logout :: "auth_world \<Rightarrow> login_result \<times> auth_world" where
  "logout w =
     (\<lparr>res_status = 201, res_message = Some ''User Logged Out Successfully''\<rparr>,
      w\<lparr>localStorage := (localStorage w)(''userId'' := None, ''token'' := None),
        userId := JNull,
        token := []\<rparr>)"

text \<open>
  The invariant of the data model: identifier and credential are both present or both
  absent. Presence is what the code itself tests: truthiness of the in-memory values
  (\<open>if (userId)\<close>, with \<open>''\<close> the absent token) and of the stored strings
  (\<open>userId && token\<close> on mount, \<open>if (token)\<close> in the request interceptor).
\<close>

definition present :: "string option \<Rightarrow> bool" where
  "present v = (case v of None \<Rightarrow> False | Some s \<Rightarrow> s \<noteq> [])"

definition memory_paired :: "auth_world \<Rightarrow> bool" where
  "memory_paired w = (truthy (userId w) = (token w \<noteq> []))"

definition store_paired :: "auth_world \<Rightarrow> bool" where
  "store_paired w = (present (localStorage w ''userId'') = present (localStorage w ''token''))"

definition session_paired :: "auth_world \<Rightarrow> bool" where
  "session_paired w = (memory_paired w \<and> store_paired w)"

text \<open>A login outcome whose status-200 body, when there is one, carries a truthy identifier and a non-empty token.\<close>

definition carries_session :: "login_body option outcome \<Rightarrow> bool" where
  "carries_session remote =
     (case remote of
        Rejected err \<Rightarrow> True
      | Resolved response \<Rightarrow>
          if status response = 200 then
            (case data response of
               None \<Rightarrow> True
             | Some d \<Rightarrow> truthy (body_userId d) \<and> body_token d \<noteq> [])
          else True)"

text \<open>The outcomes the login code treats as success: resolved, status 200.\<close>

definition resolved_200 :: "'b outcome \<Rightarrow> bool" where
  "resolved_200 remote =
     (case remote of Rejected err \<Rightarrow> False | Resolved response \<Rightarrow> status response = 200)"

section \<open>Auth forms (login and sign-up pages)\<close>

text \<open>
  A page's message state, the route last navigated to, and the timers it has set, each
  with its delay in milliseconds: the success timer clears the message and navigates,
  the error timer clears the message.
\<close>

datatype page_timer = SuccessReset string | ErrorReset

record auth_page =
  resultText :: "string option"
  pg_isError :: bool
  pg_isSuccess :: bool
  pg_route :: "string option"
  pg_timers :: "(nat \<times> page_timer) list"

definition initial_page :: auth_page where
  "initial_page =
     \<lparr>resultText = Some [], pg_isError = False, pg_isSuccess = False,
      pg_route = None, pg_timers = []\<rparr>"

fun run_page_timer :: "page_timer \<Rightarrow> auth_page \<Rightarrow> auth_page" where
  "run_page_timer (SuccessReset path) p =
     p\<lparr>pg_isSuccess := False, resultText := Some [], pg_route := Some path\<rparr>"
| "run_page_timer ErrorReset p = p\<lparr>pg_isError := False, resultText := Some []\<rparr>"

text \<open>
  \<open>String.prototype.trim\<close>. A character stands for a code unit below 256; the white
  space and line terminators in that range are 0x09 to 0x0D, 0x20 and 0xA0.
\<close>

definition is_space :: "char \<Rightarrow> bool" where
  "is_space c = (c \<in> set [CHR 0x09, CHR 0x0A, CHR 0x0B, CHR 0x0C, CHR 0x0D, CHR 0x20, CHR 0xA0])"

definition trim :: "string \<Rightarrow> string" where
  "trim s = rev (dropWhile is_space (rev (dropWhile is_space s)))"

subsection \<open>Login page\<close>

definition login_handleErrorSuccess :: "string option \<Rightarrow> bool \<Rightarrow> auth_page \<Rightarrow> auth_page" where
  "login_handleErrorSuccess message error p =
     (if \<not> error
      then p\<lparr>resultText := message, pg_isSuccess := True,
             pg_timers := pg_timers p @ [(3000, SuccessReset ''/'')]\<rparr>
      else p\<lparr>resultText := message, pg_isError := True,
             pg_timers := pg_timers p @ [(5000, ErrorReset)]\<rparr>)"

text \<open>
  The object \<open>login\<close> returns has the properties \<open>status\<close> and \<open>message\<close> only, so
  \<open>response.data\<close> read by the page is undefined.
\<close>

definition result_data :: "login_result \<Rightarrow> login_body option" where
  "result_data r = None"

text \<open>The \<open>try\<close> block after the awaited \<open>login\<close>: reading \<open>message\<close> of undefined throws.\<close>

definition login_try :: "login_result \<Rightarrow> auth_page \<Rightarrow> js_error + auth_page" where
  "login_try response p =
     (if res_status response = 200 then
        (case result_data response of
           None \<Rightarrow> Inl TypeError
         | Some d \<Rightarrow> Inr (login_handleErrorSuccess (body_message d) False p))
      else if res_status response = 500 then
        Inr (login_handleErrorSuccess (res_message response) True p)
      else
        (case result_data response of
           None \<Rightarrow> Inl TypeError
         | Some d \<Rightarrow> Inr (login_handleErrorSuccess (body_message d) True p)))"

definition login_handleSubmit ::
  "login_form \<Rightarrow> login_body option outcome \<Rightarrow> auth_page \<times> auth_world \<Rightarrow> auth_page \<times> auth_world" where
  "login_handleSubmit loginData remote pw =
     (case pw of (p, w) \<Rightarrow>
        if trim (username loginData) = [] \<or> trim (password loginData) = [] then
          (login_handleErrorSuccess (Some ''All Inputs Are Required!'') True p, w)
        else
          (case login (Some loginData) remote w of (response, w') \<Rightarrow>
             (case login_try response p of
                Inr p' \<Rightarrow> (p', w')
              | Inl err \<Rightarrow>
                  (login_handleErrorSuccess
                     (Some (or_else (error_message err) ''An error occurred during signup''))
                     True p,
                   w'))))"

subsection \<open>Sign-up page\<close>

record message_body =
  msg :: "string option"

definition signUp_handleErrorSuccess :: "string option \<Rightarrow> bool \<Rightarrow> auth_page \<Rightarrow> auth_page" where
  "signUp_handleErrorSuccess message error p =
     (if \<not> error
      then p\<lparr>resultText := message, pg_isSuccess := True,
             pg_timers := pg_timers p @ [(3000, SuccessReset ''/auth/login'')]\<rparr>
      else p\<lparr>resultText := message, pg_isError := True,
             pg_timers := pg_timers p @ [(5000, ErrorReset)]\<rparr>)"

text \<open>A response of the HTTP client has no \<open>message\<close> property of its own: \<open>response.message\<close> is undefined.\<close>

definition response_message :: "'b response \<Rightarrow> string option" where
  "response_message r = None"

definition signUp_try :: "message_body option response \<Rightarrow> auth_page \<Rightarrow> js_error + auth_page" where
  "signUp_try response p =
     (if status response = 200 then
        (case data response of
           None \<Rightarrow> Inl TypeError
         | Some d \<Rightarrow> Inr (signUp_handleErrorSuccess (msg d) False p))
      else if status response = 500 then
        Inr (signUp_handleErrorSuccess (response_message response) True p)
      else
        (case data response of
           None \<Rightarrow> Inl TypeError
         | Some d \<Rightarrow> Inr (signUp_handleErrorSuccess (msg d) True p)))"

definition signUp_handleSubmit ::
  "sign_up_form \<Rightarrow> string \<Rightarrow> message_body option outcome \<Rightarrow> auth_page \<times> request list
     \<Rightarrow> auth_page \<times> request list" where
  "signUp_handleSubmit newData confirmPassword remote pr =
     (case pr of (p, sent) \<Rightarrow>
        if trim (nd_username newData) = [] \<or> trim (nd_email newData) = [] \<or>
           trim (nd_password newData) = [] \<or> trim confirmPassword = [] then
          (signUp_handleErrorSuccess (Some ''All Inputs Are Required!'') True p, sent)
        else if nd_password newData \<noteq> confirmPassword then
          (signUp_handleErrorSuccess (Some ''Passwords Do Not Match!'') True p, sent)
        else
          (case (case remote of
                   Rejected err \<Rightarrow> Inl (RequestError err)
                 | Resolved response \<Rightarrow> signUp_try response p) of
             Inr p' \<Rightarrow> (p', sent @ [PostSignUp newData])
           | Inl err \<Rightarrow>
               (signUp_handleErrorSuccess
                  (Some (or_else (error_message err) ''An error occurred during signup''))
                  True p,
                sent @ [PostSignUp newData])))"

section \<open>Dashboard: task submission and profile loading\<close>

text \<open>
  \<open>profileImage\<close> is \<open>null\<close> at first, the bundled application icon in the
  placeholder, or the icon the server names.
\<close>

datatype image = NoImage | AppIcon | ProfileIcon string

record user_data =
  ud_username :: string
  memberSince :: string
  profileImage :: image
  tasks :: "task list"

record status_message =
  msg_text :: string
  isError :: bool

datatype dash_timer = CloseAndClear | ClearMessage

text \<open>
  The dashboard's state. \<open>temp_unsaved_tasks\<close> is the \<open>localStorage\<close> entry under
  \<open>TEMP_TASKS_KEY\<close>, held as the task list its JSON text denotes (\<open>None\<close>: no entry);
  \<open>timers\<close> are the \<open>setTimeout\<close> calls with their delays in milliseconds; \<open>calls\<close>
  are the requests issued.
\<close>

record dashboard =
  userData :: user_data
  isOpen :: bool
  message :: status_message
  temp_unsaved_tasks :: "task list option"
  timers :: "(nat \<times> dash_timer) list"
  calls :: "request list"

definition initial_dashboard :: "task list option \<Rightarrow> dashboard" where
  "initial_dashboard stored =
     \<lparr>userData = \<lparr>ud_username = [], memberSince = [], profileImage = NoImage, tasks = []\<rparr>,
      isOpen = False,
      message = \<lparr>msg_text = [], isError = False\<rparr>,
      temp_unsaved_tasks = stored,
      timers = [],
      calls = []\<rparr>"

definition closeModal :: "dashboard \<Rightarrow> dashboard" where
  "closeModal d = d\<lparr>isOpen := False\<rparr>"

fun run_dash_timer :: "dash_timer \<Rightarrow> dashboard \<Rightarrow> dashboard" where
  "run_dash_timer CloseAndClear d = (closeModal d)\<lparr>message := \<lparr>msg_text = [], isError = False\<rparr>\<rparr>"
| "run_dash_timer ClearMessage d = d\<lparr>message := \<lparr>msg_text = [], isError = False\<rparr>\<rparr>"

text \<open>Whether the reads and the write of the browser storage in the anonymous branch go through or throw.\<close>

datatype storage_outcome = StorageOk | StorageThrows

text \<open>The \<open>catch\<close> block of \<open>handleTaskSubmit\<close>.\<close>

definition task_catch :: "jsval \<Rightarrow> dashboard \<Rightarrow> dashboard" where
  "task_catch uid d =
     d\<lparr>message :=
         \<lparr>msg_text = (if truthy uid then ''Failed to create task. Please try again.''
                  else ''Failed to save task locally''),
          isError = True\<rparr>,
       timers := timers d @ [(3000, ClearMessage)]\<rparr>"

text \<open>The \<open>setTimeout\<close> that ends the \<open>try\<close> block.\<close>

definition task_done :: "dashboard \<Rightarrow> dashboard" where
  "task_done d = d\<lparr>timers := timers d @ [(3000, CloseAndClear)]\<rparr>"

text \<open>
  \<open>handleTaskSubmit\<close>, with the session's \<open>userId\<close>, the outcome of the create request
  (its body is \<open>response.data.task\<close>), the reading of \<open>Date.now()\<close> and the behaviour
  of the storage as inputs.
\<close>

definition handleTaskSubmit ::
  "jsval \<Rightarrow> task_draft option \<Rightarrow> task outcome \<Rightarrow> int \<Rightarrow> storage_outcome \<Rightarrow> dashboard \<Rightarrow> dashboard" where
  "handleTaskSubmit uid taskData remote now storage d =
     (case taskData of
        None \<Rightarrow> closeModal d
      | Some td \<Rightarrow>
          if truthy uid then
            (let d1 = d\<lparr>calls := calls d @ [PostTask td uid]\<rparr> in
             case remote of
               Rejected err \<Rightarrow> task_catch uid d1
             | Resolved response \<Rightarrow>
                 if status response = 201 then
                   task_done
                     (d1\<lparr>message := \<lparr>msg_text = ''Task created successfully!'', isError = False\<rparr>,
                         userData := (userData d1)\<lparr>tasks := tasks (userData d1) @ [data response]\<rparr>\<rparr>)
                 else task_done d1)
          else
            (let newTask = \<lparr>title = title td, description = description td,
                            dueDate = dueDate td, priority = priority td, task_id = now\<rparr> in
             case storage of
               StorageThrows \<Rightarrow> task_catch uid d
             | StorageOk \<Rightarrow>
                 (let existingTasks = (case temp_unsaved_tasks d of None \<Rightarrow> [] | Some ts \<Rightarrow> ts);
                      updatedTasks = existingTasks @ [newTask]
                  in task_done
                       (d\<lparr>temp_unsaved_tasks := Some updatedTasks,
                          message := \<lparr>msg_text = ''Task saved temporarily!'', isError = False\<rparr>,
                          userData := (userData d)\<lparr>tasks := updatedTasks\<rparr>\<rparr>))))"

text \<open>The \<open>beforeunload\<close> handler.\<close>

definition clearTasksOnUnload :: "dashboard \<Rightarrow> dashboard" where
  "clearTasksOnUnload d = d\<lparr>temp_unsaved_tasks := None\<rparr>"

text \<open>Reading the persisted list as the code does: \<open>JSON.parse(localStorage.getItem(TEMP_TASKS_KEY)) || []\<close>.\<close>

definition persisted_tasks :: "dashboard \<Rightarrow> task list" where
  "persisted_tasks d = (case temp_unsaved_tasks d of None \<Rightarrow> [] | Some ts \<Rightarrow> ts)"

text \<open>
  A run of anonymous submissions within one session: each draft comes with the reading of
  the clock at its submission; \<open>userId\<close> is \<open>null\<close> and the storage works.
\<close>

fun anonymous_submissions :: "(task_draft \<times> int) list \<Rightarrow> dashboard \<Rightarrow> dashboard" where
  "anonymous_submissions [] d = d"
| "anonymous_submissions (s # rest) d =
     anonymous_submissions rest
       (handleTaskSubmit JNull (Some (fst s)) (Rejected None) (snd s) StorageOk d)"

subsection \<open>Profile loader\<close>

record user_body =
  user_username :: string
  user_memberSince :: string
  user_profileIcon :: string
  user_savedTasks :: "task list option"

definition placeholder :: user_data where
  "placeholder =
     \<lparr>ud_username = ''Unknown User'', memberSince = ''9999'', profileImage = AppIcon, tasks = []\<rparr>"

text \<open>The update both fallback branches of \<open>loadData\<close> apply to the previous profile.\<close>

definition set_placeholder :: "dashboard \<Rightarrow> dashboard" where
  "set_placeholder d =
     d\<lparr>userData := (userData d)\<lparr>ud_username := ''Unknown User'', memberSince := ''9999'',
                                profileImage := AppIcon, tasks := []\<rparr>\<rparr>"

text \<open>
  \<open>loadData\<close>. The body of the response is \<open>response.data.user\<close>, \<open>None\<close> when it is
  undefined: reading \<open>user.username\<close> then throws inside the \<open>try\<close>.
\<close>

definition loadData :: "jsval \<Rightarrow> user_body option outcome \<Rightarrow> dashboard \<Rightarrow> dashboard" where
  "loadData uid remote d =
     (if truthy uid then
        (let d1 = d\<lparr>calls := calls d @ [GetUserMe uid]\<rparr> in
         case remote of
           Rejected err \<Rightarrow> set_placeholder d1
         | Resolved response \<Rightarrow>
             if status response = 200 then
               (case data response of
                  None \<Rightarrow> set_placeholder d1
                | Some user \<Rightarrow>
                    d1\<lparr>userData :=
                         \<lparr>ud_username = user_username user,
                          memberSince = user_memberSince user,
                          profileImage = ProfileIcon (user_profileIcon user),
                          tasks = (case user_savedTasks user of None \<Rightarrow> [] | Some ts \<Rightarrow> ts)\<rparr>\<rparr>)
             else d1)
      else set_placeholder d)"

section \<open>Properties of the Session Manager\<close>

subsection \<open>JSON text is never empty, and quoting lengthens\<close>

lemma escape_char_nonempty: "escape_char c \<noteq> []"
  by (simp add: escape_char_def)

lemma length_concat_escape: "length s \<le> length (concat (map escape_char s))"
proof (induction s)
  case Nil
  then show ?case by simp
next
  case (Cons c s)
  have "1 \<le> length (escape_char c)"
    using escape_char_nonempty [of c] by (cases "escape_char c") simp_all
  with Cons show ?case by simp
qed

lemma length_quote: "length s + 2 \<le> length (quote s)"
  using length_concat_escape [of s] by (simp add: quote_def)

lemma quote_nonempty: "quote s \<noteq> []"
  by (simp add: quote_def)

lemma quote_quote_neq: "quote (quote s) \<noteq> s"
proof
  assume "quote (quote s) = s"
  then have "length (quote (quote s)) = length s" by simp
  moreover have "length (quote s) + 2 \<le> length (quote (quote s))" by (rule length_quote)
  moreover have "length s + 2 \<le> length (quote s)" by (rule length_quote)
  ultimately show False by arith
qed

lemma decimal_nonempty: "decimal n \<noteq> []"
  by (subst decimal.simps) simp

lemma JSON_stringify_nonempty: "JSON_stringify v = Some s \<Longrightarrow> s \<noteq> []"
  by (cases v) (auto simp: number_text_def decimal_nonempty quote_nonempty split: if_splits)

lemma storage_text_stringify_nonempty: "storage_text (JSON_stringify v) \<noteq> []"
  by (cases "JSON_stringify v") (auto simp: storage_text_def dest: JSON_stringify_nonempty)

lemma login_success_world:
  "login (Some pd) (Resolved \<lparr>status = 200, data = Some d\<rparr>) w =
     (\<lparr>res_status = 200, res_message = body_message d\<rparr>,
      w\<lparr>requests := requests w @ [PostLogin pd],
        localStorage := (localStorage w)
           (''userId'' \<mapsto> storage_text (JSON_stringify (body_userId d)), ''token'' \<mapsto> body_token d),
        userId := body_userId d, token := body_token d\<rparr>)"
  by (simp add: login_def Let_def)

lemma or_else_nonempty: "fb \<noteq> [] \<Longrightarrow> or_else v fb \<noteq> []"
  by (simp add: or_else_def split: option.splits)

lemma login_catch_message: "\<exists>m. res_message (login_catch e) = Some m \<and> m \<noteq> []"
  by (simp add: login_catch_def or_else_nonempty)

lemma login_failure_world:
  assumes "\<not> resolved_200 remote"
  shows "snd (login postData remote w) =
           (case postData of None \<Rightarrow> w | Some pd \<Rightarrow> w\<lparr>requests := requests w @ [PostLogin pd]\<rparr>)"
  using assms
  by (auto simp: login_def resolved_200_def Let_def split: option.splits outcome.splits)

lemma login_failure_message:
  assumes "\<not> resolved_200 remote"
  shows "\<exists>m. res_message (fst (login postData remote w)) = Some m \<and> m \<noteq> []"
  using assms login_catch_message
  by (auto simp: login_def resolved_200_def Let_def or_else_nonempty split: option.splits outcome.splits)

lemma present_Some: "present (Some s) = (s \<noteq> [])"
  by (simp add: present_def)

lemma getData_memory_paired: "memory_paired w \<Longrightarrow> memory_paired (getData w)"
  by (auto simp: getData_def memory_paired_def js_of_text_def quote_nonempty split: option.splits)

lemma getData_store: "localStorage (getData w) = localStorage w"
  by (simp add: getData_def split: option.splits)

lemma getData_session_paired: "session_paired w \<Longrightarrow> session_paired (getData w)"
  by (simp add: session_paired_def getData_memory_paired store_paired_def getData_store)

lemma login_session_paired:
  assumes "session_paired w" and "carries_session remote"
  shows "session_paired (snd (login postData remote w))"
proof (cases "resolved_200 remote")
  case False
  show ?thesis
    using assms(1) login_failure_world [OF False, of postData w]
    by (simp add: session_paired_def memory_paired_def store_paired_def split: option.splits)
next
  case True
  then obtain r where r: "remote = Resolved r" "status r = 200"
    by (auto simp: resolved_200_def split: outcome.splits)
  show ?thesis
  proof (cases postData)
    case None
    then show ?thesis using assms(1) by (simp add: login_def)
  next
    case (Some pd)
    show ?thesis
    proof (cases "data r")
      case None
      then show ?thesis
        using assms(1) r Some
        by (simp add: login_def Let_def session_paired_def memory_paired_def store_paired_def)
    next
      case (Some d)
      then have "truthy (body_userId d)" "body_token d \<noteq> []"
        using assms(2) r by (simp_all add: carries_session_def)
      then show ?thesis
        using r Some \<open>postData = Some pd\<close> storage_text_stringify_nonempty [of "body_userId d"]
        by (simp add: login_def Let_def session_paired_def memory_paired_def store_paired_def
                      present_def)
    qed
  qed
qed

lemma logout_session_paired: "session_paired (snd (logout w))"
  by (simp add: logout_def session_paired_def memory_paired_def store_paired_def present_def)

lemma not_200_carries: "\<not> resolved_200 remote \<Longrightarrow> carries_session remote"
  by (auto simp: resolved_200_def carries_session_def split: outcome.splits)

subsection \<open>Rehydration against login\<close>

text \<open>
  Claim C3. Rehydration does not give back the identifier that login put into memory:
  after a login with status 200 carrying a non-null \<open>userId\<close> \<open>u\<close>, memory holds
  \<open>u\<close> and the store holds its JSON text; a fresh start on that store ends with an
  in-memory \<open>userId\<close> different from \<open>u\<close>, and when the token is non-empty it is the
  stored text quoted once more.
\<close>

theorem rehydration_not_roundtrip:
  assumes "u \<noteq> JNull"
  shows "let w' = snd (login (Some pd)
                    (Resolved \<lparr>status = 200,
                               data = Some \<lparr>body_userId = u, body_token = t, body_message = m\<rparr>\<rparr>) w);
             r = getData (initial_world (localStorage w'))
         in userId w' = u
          \<and> localStorage w' ''userId'' = Some (storage_text (JSON_stringify u))
          \<and> userId r \<noteq> u
          \<and> (t \<noteq> [] \<longrightarrow> userId r = JStr (quote (storage_text (JSON_stringify u))))"
proof -
  have ne: "storage_text (JSON_stringify u) \<noteq> []" by (rule storage_text_stringify_nonempty)
  have q: "JStr (quote (storage_text (JSON_stringify u))) \<noteq> u"
  proof (cases u)
    case (JStr x)
    then show ?thesis using quote_quote_neq [of x] by (simp add: storage_text_def)
  qed simp_all
  show ?thesis
    using assms ne q
    by (simp add: login_success_world getData_def initial_world_def js_of_text_def Let_def)
qed

theorem rehydration_not_roundtrip_witness:
  "let w' = snd (login (Some \<lparr>username = ''alice'', password = ''secret''\<rparr>)
                    (Resolved \<lparr>status = 200,
                               data = Some \<lparr>body_userId = JNum 7, body_token = ''tok'',
                                            body_message = Some ''Welcome''\<rparr>\<rparr>)
                    (initial_world Map.empty));
       r = getData (initial_world (localStorage w'))
   in JNum 7 \<noteq> JNull \<and> userId w' = JNum 7 \<and> localStorage w' ''userId'' = Some ''7''
      \<and> userId r = JStr [CHR 0x22, CHR ''7'', CHR 0x22] \<and> userId r \<noteq> JNum 7"
proof -
  have h: "JNum 7 \<noteq> JNull" by simp
  have s: "number_text 7 = ''7''"
    by (simp add: number_text_def decimal.simps digit_def)
  have q: "quote ''7'' = [CHR 0x22, CHR ''7'', CHR 0x22]"
    by (simp add: quote_def escape_char_def)
  show ?thesis
    using rehydration_not_roundtrip [OF h, of "\<lparr>username = ''alice'', password = ''secret''\<rparr>"
        "''tok''" "Some ''Welcome''" "initial_world Map.empty"]
    by (simp add: Let_def storage_text_def s q)
qed

subsection \<open>Failed logins\<close>

text \<open>
  Claim C6. When the login request does not resolve with status 200 (another status, or a
  thrown error), \<open>login\<close> leaves the in-memory session and the store as they were and
  returns a result with a status and a non-empty message: never status 200 for a resolved
  response, the response's own status when it has a body, and the error's status (or 500)
  when the request threw.
\<close>

theorem login_failure_leaves_session:
  assumes "\<not> resolved_200 remote"
  shows "userId (snd (login postData remote w)) = userId w
       \<and> token (snd (login postData remote w)) = token w
       \<and> localStorage (snd (login postData remote w)) = localStorage w
       \<and> (\<exists>m. res_message (fst (login postData remote w)) = Some m \<and> m \<noteq> [])
       \<and> (\<forall>r. remote = Resolved r \<longrightarrow> res_status (fst (login postData remote w)) \<noteq> 200)
       \<and> (\<forall>pd r d. postData = Some pd \<and> remote = Resolved r \<and> data r = Some d \<longrightarrow>
             res_status (fst (login postData remote w)) = status r)
       \<and> (\<forall>pd e. postData = Some pd \<and> remote = Rejected e \<longrightarrow>
             res_status (fst (login postData remote w)) =
               (case e of None \<Rightarrow> 500 | Some x \<Rightarrow> if err_status x = 0 then 500 else err_status x))"
proof -
  have "userId (snd (login postData remote w)) = userId w"
    and "token (snd (login postData remote w)) = token w"
    and "localStorage (snd (login postData remote w)) = localStorage w"
    using login_failure_world [OF assms, of postData w] by (simp_all split: option.splits)
  moreover have "\<exists>m. res_message (fst (login postData remote w)) = Some m \<and> m \<noteq> []"
    by (rule login_failure_message [OF assms])
  moreover have "\<forall>r. remote = Resolved r \<longrightarrow> res_status (fst (login postData remote w)) \<noteq> 200"
    using assms
    by (auto simp: login_def resolved_200_def Let_def login_catch_def error_status_def
             split: option.splits)
  moreover have "\<forall>pd r d. postData = Some pd \<and> remote = Resolved r \<and> data r = Some d \<longrightarrow>
             res_status (fst (login postData remote w)) = status r"
    using assms by (auto simp: login_def resolved_200_def Let_def)
  moreover have "\<forall>pd e. postData = Some pd \<and> remote = Rejected e \<longrightarrow>
             res_status (fst (login postData remote w)) =
               (case e of None \<Rightarrow> 500 | Some x \<Rightarrow> if err_status x = 0 then 500 else err_status x)"
    by (auto simp: login_def Let_def login_catch_def error_status_def split: option.splits)
  ultimately show ?thesis by blast
qed

theorem login_failure_leaves_session_witness:
  "let remote = Resolved \<lparr>status = 401,
                  data = Some \<lparr>body_userId = JUndefined, body_token = [], body_message = Some ''Invalid credentials''\<rparr>\<rparr>;
       w = \<lparr>userId = JNum 3, token = ''old'',
            localStorage = [''userId'' \<mapsto> ''3'', ''token'' \<mapsto> ''old''], requests = []\<rparr>;
       out = login (Some \<lparr>username = ''alice'', password = ''wrong''\<rparr>) remote w
   in \<not> resolved_200 remote \<and> userId (snd out) = JNum 3 \<and> token (snd out) = ''old''
      \<and> localStorage (snd out) = localStorage w
      \<and> fst out = \<lparr>res_status = 401, res_message = Some ''Invalid credentials''\<rparr>"
proof -
  let ?remote = "Resolved \<lparr>status = 401,
                  data = Some \<lparr>body_userId = JUndefined, body_token = [], body_message = Some ''Invalid credentials''\<rparr>\<rparr>"
  let ?w = "\<lparr>userId = JNum 3, token = ''old'',
            localStorage = [''userId'' \<mapsto> ''3'', ''token'' \<mapsto> ''old''], requests = []\<rparr>"
  have h: "\<not> resolved_200 ?remote" by (simp add: resolved_200_def)
  have r: "fst (login (Some \<lparr>username = ''alice'', password = ''wrong''\<rparr>) ?remote ?w)
             = \<lparr>res_status = 401, res_message = Some ''Invalid credentials''\<rparr>"
    by (simp add: login_def Let_def or_else_def)
  show ?thesis
    using h r login_failure_leaves_session [OF h, of "Some \<lparr>username = ''alice'', password = ''wrong''\<rparr>" ?w]
    by (simp add: Let_def)
qed

subsection \<open>Identifier and token go together\<close>

text \<open>
  Claim C5, as the code has it. The in-memory session starts paired (both absent), and on
  an empty store the whole state is paired; rehydration, a failed login and logout keep
  the pairing of memory and store, and so does a login with status 200 whose body carries
  a truthy \<open>userId\<close> and a non-empty token.
\<close>

theorem session_pairing_preserved:
  "memory_paired (initial_world ls)
   \<and> session_paired (initial_world Map.empty)
   \<and> (session_paired w \<longrightarrow> session_paired (getData w))
   \<and> (session_paired w \<and> carries_session remote \<longrightarrow> session_paired (snd (login postData remote w)))
   \<and> (session_paired w \<and> \<not> resolved_200 remote \<longrightarrow> session_paired (snd (login postData remote w)))
   \<and> session_paired (snd (logout w))"
proof -
  have "memory_paired (initial_world ls)"
    by (simp add: initial_world_def memory_paired_def)
  moreover have "session_paired (initial_world Map.empty)"
    by (simp add: initial_world_def session_paired_def memory_paired_def store_paired_def present_def)
  ultimately show ?thesis
    using getData_session_paired login_session_paired logout_session_paired not_200_carries
    by blast
qed

theorem session_pairing_preserved_witness:
  "let remote = Resolved \<lparr>status = 200,
                  data = Some \<lparr>body_userId = JNum 7, body_token = ''tok'', body_message = Some ''Welcome''\<rparr>\<rparr>;
       w = initial_world Map.empty;
       w' = snd (login (Some \<lparr>username = ''alice'', password = ''secret''\<rparr>) remote w)
   in session_paired w \<and> carries_session remote \<and> session_paired w'
      \<and> userId w' = JNum 7 \<and> token w' = ''tok''
      \<and> session_paired (getData w) \<and> session_paired (snd (logout w))"
proof -
  let ?remote = "Resolved \<lparr>status = 200,
                  data = Some \<lparr>body_userId = JNum 7, body_token = ''tok'', body_message = Some ''Welcome''\<rparr>\<rparr>"
  let ?pd = "Some \<lparr>username = ''alice'', password = ''secret''\<rparr>"
  have c: "carries_session ?remote" by (simp add: carries_session_def)
  have u: "userId (snd (login ?pd ?remote (initial_world Map.empty))) = JNum 7"
          "token (snd (login ?pd ?remote (initial_world Map.empty))) = ''tok''"
    by (simp_all add: login_def Let_def)
  show ?thesis
    using c u session_pairing_preserved [of Map.empty "initial_world Map.empty" ?remote ?pd]
    by (simp add: Let_def)
qed

text \<open>
  Without that condition the pairing is lost: a status-200 body with identifier 7 and an
  empty token leaves a present \<open>userId\<close> beside an absent token.
\<close>

theorem session_pairing_counterexample:
  "session_paired (initial_world Map.empty)
   \<and> \<not> memory_paired (snd (login (Some \<lparr>username = ''alice'', password = ''secret''\<rparr>)
          (Resolved \<lparr>status = 200,
                     data = Some \<lparr>body_userId = JNum 7, body_token = [],
                                  body_message = Some ''Welcome''\<rparr>\<rparr>)
          (initial_world Map.empty)))
   \<and> \<not> session_paired (snd (login (Some \<lparr>username = ''alice'', password = ''secret''\<rparr>)
          (Resolved \<lparr>status = 200,
                     data = Some \<lparr>body_userId = JNum 7, body_token = [],
                                  body_message = Some ''Welcome''\<rparr>\<rparr>)
          (initial_world Map.empty)))"
  by (simp add: login_def Let_def initial_world_def session_paired_def memory_paired_def
                store_paired_def present_def)

section \<open>Properties of the auth forms\<close>

lemma trim_empty_iff: "trim s = [] \<longleftrightarrow> list_all is_space s"
proof
  assume "trim s = []"
  then have all: "\<forall>x\<in>set (dropWhile is_space s). is_space x"
    by (simp add: trim_def dropWhile_eq_Nil_conv)
  have "dropWhile is_space s = []"
  proof (rule ccontr)
    assume ne: "dropWhile is_space s \<noteq> []"
    then have "\<not> is_space (hd (dropWhile is_space s))" by (rule hd_dropWhile)
    moreover have "hd (dropWhile is_space s) \<in> set (dropWhile is_space s)" using ne by simp
    ultimately show False using all by blast
  qed
  then show "list_all is_space s" by (simp add: dropWhile_eq_Nil_conv list_all_iff)
next
  assume "list_all is_space s"
  then have "\<forall>x\<in>set s. is_space x" by (simp add: list_all_iff)
  then have d: "dropWhile is_space s = []" by (induction s) simp_all
  show "trim s = []" unfolding trim_def d by simp
qed

lemma login_handleErrorSuccess_error:
  "login_handleErrorSuccess m True p =
     p\<lparr>resultText := m, pg_isError := True, pg_timers := pg_timers p @ [(5000, ErrorReset)]\<rparr>"
  by (simp add: login_handleErrorSuccess_def)

lemma signUp_handleErrorSuccess_error:
  "signUp_handleErrorSuccess m True p =
     p\<lparr>resultText := m, pg_isError := True, pg_timers := pg_timers p @ [(5000, ErrorReset)]\<rparr>"
  by (simp add: signUp_handleErrorSuccess_def)

text \<open>
  Claim C7. A login form with a blank (empty or white-space only) username or password,
  and a sign-up form with a blank username, email, password or confirmation, issue no
  request and show the error message "All Inputs Are Required!"; a sign-up form with no
  blank field whose password and confirmation differ issues no request and shows the
  error message "Passwords Do Not Match!".
\<close>

theorem blank_credentials_rejected_locally:
  "(list_all is_space (username f) \<or> list_all is_space (password f) \<longrightarrow>
      snd (login_handleSubmit f remote (p, w)) = w
      \<and> pg_isError (fst (login_handleSubmit f remote (p, w)))
      \<and> resultText (fst (login_handleSubmit f remote (p, w))) = Some ''All Inputs Are Required!'')
   \<and> (list_all is_space (nd_username n) \<or> list_all is_space (nd_email n) \<or>
       list_all is_space (nd_password n) \<or> list_all is_space c \<longrightarrow>
      snd (signUp_handleSubmit n c remote' (p, sent)) = sent
      \<and> pg_isError (fst (signUp_handleSubmit n c remote' (p, sent)))
      \<and> resultText (fst (signUp_handleSubmit n c remote' (p, sent))) = Some ''All Inputs Are Required!'')
   \<and> (\<not> (list_all is_space (nd_username n) \<or> list_all is_space (nd_email n) \<or>
          list_all is_space (nd_password n) \<or> list_all is_space c) \<and> nd_password n \<noteq> c \<longrightarrow>
      snd (signUp_handleSubmit n c remote' (p, sent)) = sent
      \<and> pg_isError (fst (signUp_handleSubmit n c remote' (p, sent)))
      \<and> resultText (fst (signUp_handleSubmit n c remote' (p, sent))) = Some ''Passwords Do Not Match!'')"
  by (simp add: login_handleSubmit_def signUp_handleSubmit_def trim_empty_iff
                login_handleErrorSuccess_error signUp_handleErrorSuccess_error)

theorem blank_credentials_rejected_locally_witness:
  "let f = \<lparr>username = ''alice'', password = ''  ''\<rparr>;
       n = \<lparr>nd_username = ''bob'', nd_email = [], nd_firstName = [], nd_lastName = [],
            nd_password = ''pw'', nd_role = ''user'', nd_phoneNumber = []\<rparr>;
       n' = n\<lparr>nd_email := ''bob@example.com''\<rparr>;
       ok = Resolved \<lparr>status = 200, data = Some \<lparr>msg = Some ''created''\<rparr>\<rparr>;
       w = initial_world Map.empty
   in list_all is_space (password f)
    \<and> login_handleSubmit f (Rejected None) (initial_page, w) =
        (initial_page\<lparr>resultText := Some ''All Inputs Are Required!'', pg_isError := True,
                       pg_timers := [(5000, ErrorReset)]\<rparr>, w)
    \<and> requests (snd (login_handleSubmit f (Rejected None) (initial_page, w))) = []
    \<and> list_all is_space (nd_email n)
    \<and> snd (signUp_handleSubmit n ''pw'' ok (initial_page, [])) = []
    \<and> resultText (fst (signUp_handleSubmit n ''pw'' ok (initial_page, []))) = Some ''All Inputs Are Required!''
    \<and> nd_password n' \<noteq> ''pW''
    \<and> snd (signUp_handleSubmit n' ''pW'' ok (initial_page, [])) = []
    \<and> resultText (fst (signUp_handleSubmit n' ''pW'' ok (initial_page, []))) = Some ''Passwords Do Not Match!''"
proof -
  let ?f = "\<lparr>username = ''alice'', password = ''  ''\<rparr>"
  let ?n = "\<lparr>nd_username = ''bob'', nd_email = [], nd_firstName = [], nd_lastName = [],
            nd_password = ''pw'', nd_role = ''user'', nd_phoneNumber = []\<rparr>"
  let ?n' = "?n\<lparr>nd_email := ''bob@example.com''\<rparr>"
  let ?ok = "Resolved \<lparr>status = 200, data = Some \<lparr>msg = Some ''created''\<rparr>\<rparr>"
  have a: "list_all is_space (password ?f)" by (simp add: is_space_def)
  have b: "list_all is_space (nd_email ?n)" by simp
  have c: "\<not> (list_all is_space (nd_username ?n') \<or> list_all is_space (nd_email ?n') \<or>
          list_all is_space (nd_password ?n') \<or> list_all is_space ''pW'')"
    by (simp add: is_space_def)
  have d: "nd_password ?n' \<noteq> ''pW''" by simp
  have e: "fst (login_handleSubmit ?f (Rejected None) (initial_page, initial_world Map.empty)) =
        initial_page\<lparr>resultText := Some ''All Inputs Are Required!'', pg_isError := True,
                       pg_timers := [(5000, ErrorReset)]\<rparr>"
    using a by (simp add: login_handleSubmit_def trim_empty_iff login_handleErrorSuccess_error initial_page_def)
  have r: "requests (initial_world Map.empty) = []" by (simp add: initial_world_def)
  from blank_credentials_rejected_locally
         [where f = ?f and n = ?n and c = "''pw''" and remote = "Rejected None" and p = initial_page
            and w = "initial_world Map.empty" and remote' = ?ok and sent = "[]"]
       blank_credentials_rejected_locally
         [where f = ?f and n = ?n' and c = "''pW''" and remote = "Rejected None" and p = initial_page
            and w = "initial_world Map.empty" and remote' = ?ok and sent = "[]"]
       a b c d e r
  show ?thesis
    by (simp add: Let_def prod_eq_iff)
qed

subsection \<open>What the login page shows\<close>

text \<open>Whatever \<open>login\<close> returns, the page ends in the error branch of its message handler.\<close>

lemma login_try_never_success:
  "login_try response p = Inl TypeError
   \<or> (\<exists>m. login_try response p = Inr (login_handleErrorSuccess m True p))"
  by (auto simp: login_try_def result_data_def)

lemma login_page_always_error:
  "\<exists>m. fst (login_handleSubmit f remote (p, w)) = login_handleErrorSuccess m True p"
proof (cases "trim (username f) = [] \<or> trim (password f) = []")
  case True
  then show ?thesis by (auto simp: login_handleSubmit_def)
next
  case False
  obtain response w' where l: "login (Some f) remote w = (response, w')"
    by (cases "login (Some f) remote w")
  from login_try_never_success [of response p] show ?thesis
    using False l by (auto simp: login_handleSubmit_def)
qed

text \<open>
  Claim C1, evaluated on the code. With username "alice", password "secret" and a login
  request that resolves with status 200, identifier 7, a token and the message
  "Welcome back", the session is set, but the page shows the error message
  "An error occurred during signup", cleared after 5 seconds, and sets no redirect.
\<close>

theorem login_200_shown_as_error:
  "let out = login_handleSubmit \<lparr>username = ''alice'', password = ''secret''\<rparr>
               (Resolved \<lparr>status = 200,
                          data = Some \<lparr>body_userId = JNum 7, body_token = ''tok'',
                                       body_message = Some ''Welcome back''\<rparr>\<rparr>)
               (initial_page, initial_world Map.empty)
   in userId (snd out) = JNum 7 \<and> token (snd out) = ''tok''
    \<and> resultText (fst out) = Some ''An error occurred during signup''
    \<and> pg_isError (fst out) \<and> \<not> pg_isSuccess (fst out)
    \<and> pg_timers (fst out) = [(5000, ErrorReset)]"
  by (simp add: login_handleSubmit_def login_def Let_def login_try_def result_data_def
                login_handleErrorSuccess_def error_message_def or_else_def initial_page_def
                initial_world_def trim_def is_space_def)

section \<open>Properties of the dashboard\<close>

subsection \<open>Profile loader\<close>

text \<open>
  Where \<open>loadData\<close> sets the placeholder (the request throws, a status-200 response
  carries no user, or there is no session, in which case no request is issued), and
  where it does not: a response that resolves with another status leaves the profile as
  it was.
\<close>

lemma set_placeholder_userData: "userData (set_placeholder d) = placeholder"
  by (simp add: set_placeholder_def placeholder_def)

lemma set_placeholder_calls: "calls (set_placeholder d) = calls d"
  by (simp add: set_placeholder_def)

lemma loadData_placeholder_cases:
  "(truthy uid \<longrightarrow>
      userData (loadData uid (Rejected e) d) = placeholder
      \<and> calls (loadData uid (Rejected e) d) = calls d @ [GetUserMe uid])
   \<and> (truthy uid \<and> status r = 200 \<and> data r = None \<longrightarrow>
      userData (loadData uid (Resolved r) d) = placeholder)
   \<and> (\<not> truthy uid \<longrightarrow>
      userData (loadData uid remote d) = placeholder
      \<and> calls (loadData uid remote d) = calls d)
   \<and> ud_username placeholder = ''Unknown User'' \<and> memberSince placeholder = ''9999''
   \<and> profileImage placeholder = AppIcon \<and> tasks placeholder = []"
  by (simp add: loadData_def Let_def set_placeholder_userData set_placeholder_calls placeholder_def)

lemma loadData_resolved_other_status:
  assumes "truthy uid" and "status r \<noteq> 200"
  shows "userData (loadData uid (Resolved r) d) = userData d
       \<and> calls (loadData uid (Resolved r) d) = calls d @ [GetUserMe uid]"
  using assms by (simp add: loadData_def Let_def)

text \<open>
  Claim C8, evaluated on the code. With an authenticated session (identifier 7) and a
  profile request that resolves with status 204, the request is issued and the profile is
  left as it was: on a fresh mount the empty initial profile, after an earlier load the
  profile "alice" still on screen. In neither case is it the placeholder with username
  "Unknown User", memberSince "9999", the application icon and no tasks.
\<close>

theorem profile_204_not_placeholder:
  "let shown = \<lparr>ud_username = ''alice'', memberSince = ''2024'', profileImage = ProfileIcon ''a.png'',
                tasks = [\<lparr>title = ''t'', description = [], dueDate = [], priority = ''low'', task_id = 1\<rparr>]\<rparr>;
       no_content = Resolved \<lparr>status = 204, data = None\<rparr>;
       fresh = loadData (JNum 7) no_content (initial_dashboard None);
       stale = loadData (JNum 7) no_content ((initial_dashboard None)\<lparr>userData := shown\<rparr>)
   in truthy (JNum 7)
    \<and> calls fresh = [GetUserMe (JNum 7)]
    \<and> userData fresh = \<lparr>ud_username = [], memberSince = [], profileImage = NoImage, tasks = []\<rparr>
    \<and> userData fresh \<noteq> placeholder
    \<and> userData stale = shown
    \<and> ud_username (userData stale) = ''alice''
    \<and> userData stale \<noteq> placeholder"
  by (simp add: loadData_def Let_def initial_dashboard_def placeholder_def)

subsection \<open>Delays of the message timers\<close>

lemma handleTaskSubmit_timers:
  "timers (handleTaskSubmit uid (Some td) remote now storage d) =
     timers d @ [(3000,
        if (truthy uid \<and> (\<exists>e. remote = Rejected e)) \<or> (\<not> truthy uid \<and> storage = StorageThrows)
        then ClearMessage else CloseAndClear)]"
  by (cases remote; cases storage)
     (simp_all add: handleTaskSubmit_def Let_def task_catch_def task_done_def)

text \<open>
  Claim C9. Every task submission with a draft sets exactly one timer, of 3000
  milliseconds, in the success branch and in the failure branch alike, and that timer
  clears the message. The message handlers of the login and sign-up pages show the
  message with the success or the error flag and set a timer of 3000 milliseconds for a
  success and of 5000 milliseconds for an error; when it fires, that timer empties the
  message and lowers the flag it belongs to, and the success timer navigates (to the root
  route from the login page, to the login route from the sign-up page).
\<close>

theorem clear_delays:
  "map fst (timers (handleTaskSubmit uid (Some td) remote now storage d)) = map fst (timers d) @ [3000]
   \<and> (\<exists>a. timers (handleTaskSubmit uid (Some td) remote now storage d) = timers d @ [(3000, a)]
          \<and> message (run_dash_timer a x) = \<lparr>msg_text = [], isError = False\<rparr>)
   \<and> pg_timers (login_handleErrorSuccess m error p) =
       pg_timers p @ [if error then (5000, ErrorReset) else (3000, SuccessReset ''/'')]
   \<and> pg_timers (signUp_handleErrorSuccess m error p) =
       pg_timers p @ [if error then (5000, ErrorReset) else (3000, SuccessReset ''/auth/login'')]
   \<and> resultText (login_handleErrorSuccess m error p) = m
   \<and> (if error then pg_isError (login_handleErrorSuccess m error p)
       else pg_isSuccess (login_handleErrorSuccess m error p))
   \<and> resultText (signUp_handleErrorSuccess m error p) = m
   \<and> (if error then pg_isError (signUp_handleErrorSuccess m error p)
       else pg_isSuccess (signUp_handleErrorSuccess m error p))
   \<and> resultText (run_page_timer (snd (last (pg_timers (login_handleErrorSuccess m error p)))) y) = Some []
   \<and> (if error
       then \<not> pg_isError (run_page_timer (snd (last (pg_timers (login_handleErrorSuccess m error p)))) y)
       else \<not> pg_isSuccess (run_page_timer (snd (last (pg_timers (login_handleErrorSuccess m error p)))) y)
          \<and> pg_route (run_page_timer (snd (last (pg_timers (login_handleErrorSuccess m error p)))) y)
              = Some ''/'')
   \<and> resultText (run_page_timer (snd (last (pg_timers (signUp_handleErrorSuccess m error p)))) y) = Some []
   \<and> (if error
       then \<not> pg_isError (run_page_timer (snd (last (pg_timers (signUp_handleErrorSuccess m error p)))) y)
       else \<not> pg_isSuccess (run_page_timer (snd (last (pg_timers (signUp_handleErrorSuccess m error p)))) y)
          \<and> pg_route (run_page_timer (snd (last (pg_timers (signUp_handleErrorSuccess m error p)))) y)
              = Some ''/auth/login'')"
proof -
  have "message (run_dash_timer a x) = \<lparr>msg_text = [], isError = False\<rparr>" for a
    by (cases a) simp_all
  then show ?thesis
    by (simp add: handleTaskSubmit_timers login_handleErrorSuccess_def signUp_handleErrorSuccess_def)
qed

theorem clear_delays_witness:
  "let td = \<lparr>title = ''Buy milk'', description = [], dueDate = [], priority = ''medium''\<rparr>;
       d = initial_dashboard None;
       failed = login_handleErrorSuccess (Some ''no'') True initial_page;
       created = signUp_handleErrorSuccess (Some ''ok'') False initial_page
   in timers (handleTaskSubmit JNull (Some td) (Rejected None) 1000 StorageOk d) = [(3000, CloseAndClear)]
    \<and> timers (handleTaskSubmit (JNum 7) (Some td) (Rejected None) 1000 StorageOk d) = [(3000, ClearMessage)]
    \<and> pg_timers failed = [(5000, ErrorReset)]
    \<and> resultText failed = Some ''no'' \<and> pg_isError failed
    \<and> resultText (run_page_timer ErrorReset failed) = Some []
    \<and> \<not> pg_isError (run_page_timer ErrorReset failed)
    \<and> pg_timers created = [(3000, SuccessReset ''/auth/login'')]
    \<and> resultText created = Some ''ok'' \<and> pg_isSuccess created
    \<and> resultText (run_page_timer (SuccessReset ''/auth/login'') created) = Some []
    \<and> \<not> pg_isSuccess (run_page_timer (SuccessReset ''/auth/login'') created)
    \<and> pg_route (run_page_timer (SuccessReset ''/auth/login'') created) = Some ''/auth/login''"
proof -
  let ?td = "\<lparr>title = ''Buy milk'', description = [], dueDate = [], priority = ''medium''\<rparr>"
  let ?failed = "login_handleErrorSuccess (Some ''no'') True initial_page"
  let ?created = "signUp_handleErrorSuccess (Some ''ok'') False initial_page"
  have a: "timers (handleTaskSubmit JNull (Some ?td) (Rejected None) 1000 StorageOk (initial_dashboard None))
             = [(3000, CloseAndClear)]"
    by (simp add: handleTaskSubmit_def Let_def task_done_def initial_dashboard_def)
  have b: "timers (handleTaskSubmit (JNum 7) (Some ?td) (Rejected None) 1000 StorageOk (initial_dashboard None))
             = [(3000, ClearMessage)]"
    by (simp add: handleTaskSubmit_def Let_def task_catch_def initial_dashboard_def)
  have c: "pg_timers initial_page = []" by (simp add: initial_page_def)
  have f: "pg_timers ?failed = [(5000, ErrorReset)]"
    using c clear_delays [where uid = JNull and td = ?td and remote = "Rejected None" and now = 1000
        and storage = StorageOk and d = "initial_dashboard None" and m = "Some ''no''"
        and error = True and p = initial_page and y = ?failed]
    by simp
  have g: "pg_timers ?created = [(3000, SuccessReset ''/auth/login'')]"
    using c clear_delays [where uid = JNull and td = ?td and remote = "Rejected None" and now = 1000
        and storage = StorageOk and d = "initial_dashboard None" and m = "Some ''ok''"
        and error = False and p = initial_page and y = ?created]
    by simp
  show ?thesis
    using a b f g
      clear_delays [where uid = JNull and td = ?td and remote = "Rejected None" and now = 1000
        and storage = StorageOk and d = "initial_dashboard None" and m = "Some ''no''"
        and error = True and p = initial_page and y = ?failed]
      clear_delays [where uid = JNull and td = ?td and remote = "Rejected None" and now = 1000
        and storage = StorageOk and d = "initial_dashboard None" and m = "Some ''ok''"
        and error = False and p = initial_page and y = ?created]
    by (simp add: Let_def)
qed

subsection \<open>The ephemeral store\<close>

lemma anonymous_submit_persisted:
  assumes "\<not> truthy uid"
  shows "persisted_tasks (handleTaskSubmit uid (Some td) remote now StorageOk d) =
           persisted_tasks d @ [\<lparr>title = title td, description = description td,
                                 dueDate = dueDate td, priority = priority td, task_id = now\<rparr>]"
  using assms by (simp add: handleTaskSubmit_def Let_def task_done_def persisted_tasks_def)

text \<open>
  Claim C10. After an anonymous submission of a draft that the storage accepts, the
  persisted list read back is the former list followed by one task whose title,
  description, due date and priority are the draft's and whose identifier is the clock
  reading; the in-memory task list is that same list.
\<close>

theorem ephemeral_round_trip:
  assumes "\<not> truthy uid"
  shows "let d' = handleTaskSubmit uid (Some td) remote now StorageOk d
         in temp_unsaved_tasks d' = Some (persisted_tasks d')
          \<and> persisted_tasks d' \<noteq> []
          \<and> butlast (persisted_tasks d') = persisted_tasks d
          \<and> title (last (persisted_tasks d')) = title td
          \<and> description (last (persisted_tasks d')) = description td
          \<and> dueDate (last (persisted_tasks d')) = dueDate td
          \<and> priority (last (persisted_tasks d')) = priority td
          \<and> task_id (last (persisted_tasks d')) = now
          \<and> tasks (userData d') = persisted_tasks d'"
proof -
  have "temp_unsaved_tasks (handleTaskSubmit uid (Some td) remote now StorageOk d)
          = Some (persisted_tasks (handleTaskSubmit uid (Some td) remote now StorageOk d))"
    using assms by (simp add: handleTaskSubmit_def Let_def task_done_def persisted_tasks_def)
  moreover have "tasks (userData (handleTaskSubmit uid (Some td) remote now StorageOk d))
          = persisted_tasks (handleTaskSubmit uid (Some td) remote now StorageOk d)"
    using assms by (simp add: handleTaskSubmit_def Let_def task_done_def persisted_tasks_def)
  ultimately show ?thesis
    by (simp add: Let_def anonymous_submit_persisted [OF assms])
qed

theorem ephemeral_round_trip_witness:
  "let td = \<lparr>title = ''Buy milk'', description = [], dueDate = [], priority = ''medium''\<rparr>;
       old = \<lparr>title = ''Call'', description = ''mum'', dueDate = ''2025-01-01'', priority = ''high'', task_id = 5\<rparr>;
       d' = handleTaskSubmit JNull (Some td) (Rejected None) 1000 StorageOk (initial_dashboard (Some [old]))
   in \<not> truthy JNull
    \<and> persisted_tasks d' = [old, \<lparr>title = ''Buy milk'', description = [], dueDate = [],
                                   priority = ''medium'', task_id = 1000\<rparr>]
    \<and> title (last (persisted_tasks d')) = ''Buy milk''
    \<and> task_id (last (persisted_tasks d')) = 1000"
proof -
  let ?td = "\<lparr>title = ''Buy milk'', description = [], dueDate = [], priority = ''medium''\<rparr>"
  let ?old = "\<lparr>title = ''Call'', description = ''mum'', dueDate = ''2025-01-01'', priority = ''high'', task_id = 5\<rparr>"
  have h: "\<not> truthy JNull" by simp
  have p: "persisted_tasks (handleTaskSubmit JNull (Some ?td) (Rejected None) 1000 StorageOk
              (initial_dashboard (Some [?old])))
           = [?old, \<lparr>title = ''Buy milk'', description = [], dueDate = [], priority = ''medium'', task_id = 1000\<rparr>]"
    by (simp add: handleTaskSubmit_def Let_def task_done_def persisted_tasks_def initial_dashboard_def)
  show ?thesis
    using h p ephemeral_round_trip [OF h, of ?td "Rejected None" 1000 "initial_dashboard (Some [?old])"]
    by (simp add: Let_def)
qed

subsection \<open>Sequences of anonymous submissions\<close>

lemma anonymous_submissions_persisted:
  "persisted_tasks (anonymous_submissions subs d) =
     persisted_tasks d @
       map (\<lambda>s. \<lparr>title = title (fst s), description = description (fst s),
                  dueDate = dueDate (fst s), priority = priority (fst s), task_id = snd s\<rparr>) subs"
proof (induction subs arbitrary: d)
  case Nil
  then show ?case by simp
next
  case (Cons s rest)
  have "\<not> truthy JNull" by simp
  then show ?case
    by (simp add: Cons.IH anonymous_submit_persisted)
qed

lemma anonymous_submissions_length:
  "length (persisted_tasks (anonymous_submissions subs d)) = length (persisted_tasks d) + length subs"
  by (simp add: anonymous_submissions_persisted)

lemma anonymous_submissions_ids:
  "map task_id (persisted_tasks (anonymous_submissions subs d)) =
     map task_id (persisted_tasks d) @ map snd subs"
  by (simp add: anonymous_submissions_persisted comp_def)

lemma anonymous_ids_distinct_iff:
  "distinct (map task_id (persisted_tasks (anonymous_submissions subs (initial_dashboard None))))
     \<longleftrightarrow> distinct (map snd subs)"
proof -
  have "persisted_tasks (initial_dashboard None) = []"
    by (simp add: persisted_tasks_def initial_dashboard_def)
  then show ?thesis by (simp add: anonymous_submissions_ids)
qed

text \<open>
  Claim C4, evaluated on the code. Two anonymous submissions at which \<open>Date.now()\<close>
  reads the same millisecond, 1000, leave two persisted tasks (one more per submission)
  that carry the same identifier.
\<close>

theorem same_clock_reading_same_id:
  "let a = \<lparr>title = ''Buy milk'', description = [], dueDate = [], priority = ''medium''\<rparr>;
       b = \<lparr>title = ''Call mum'', description = [], dueDate = [], priority = ''high''\<rparr>;
       d' = anonymous_submissions [(a, 1000), (b, 1000)] (initial_dashboard None)
   in length (persisted_tasks d') = 2
    \<and> map task_id (persisted_tasks d') = [1000, 1000]
    \<and> \<not> distinct (map task_id (persisted_tasks d'))"
  by (simp add: handleTaskSubmit_def Let_def task_done_def persisted_tasks_def initial_dashboard_def)

subsection \<open>Authenticated submissions\<close>

lemma task_rejected_is_failure:
  assumes "truthy uid"
  shows "message (handleTaskSubmit uid (Some td) (Rejected e) now storage d) =
           \<lparr>msg_text = ''Failed to create task. Please try again.'', isError = True\<rparr>
       \<and> tasks (userData (handleTaskSubmit uid (Some td) (Rejected e) now storage d)) = tasks (userData d)"
  using assms by (simp add: handleTaskSubmit_def Let_def task_catch_def)

lemma task_resolved_other_status:
  assumes "truthy uid" and "status r \<noteq> 201"
  shows "message (handleTaskSubmit uid (Some td) (Resolved r) now storage d) = message d
       \<and> tasks (userData (handleTaskSubmit uid (Some td) (Resolved r) now storage d)) = tasks (userData d)"
  using assms by (simp add: handleTaskSubmit_def Let_def task_done_def)

text \<open>
  Claim C2, evaluated on the code. An authenticated submission whose create request
  resolves with status 200 leaves the task list unchanged but sets no failure message:
  the message stays empty with \<open>isError\<close> false, and the timer that closes the dialog
  is set.
\<close>

theorem task_status_200_no_failure_message:
  "let td = \<lparr>title = ''Buy milk'', description = [], dueDate = [], priority = ''medium''\<rparr>;
       d' = handleTaskSubmit (JNum 7) (Some td)
              (Resolved \<lparr>status = 200,
                         data = \<lparr>title = ''Buy milk'', description = [], dueDate = [],
                                 priority = ''medium'', task_id = 42\<rparr>\<rparr>)
              1000 StorageOk (initial_dashboard None)
   in message d' = \<lparr>msg_text = [], isError = False\<rparr>
    \<and> message d' \<noteq> \<lparr>msg_text = ''Failed to create task. Please try again.'', isError = True\<rparr>
    \<and> tasks (userData d') = []
    \<and> timers d' = [(3000, CloseAndClear)]
    \<and> calls d' = [PostTask td (JNum 7)]"
  by (simp add: handleTaskSubmit_def Let_def task_done_def initial_dashboard_def)

end
